theory Spec2Isabelle
  imports Complex_Main
begin

section \<open>Data model (models.py)\<close>

text \<open>
  Python floats are modelled as HOL reals: rounding, overflow, infinities and NaN are
  outside this development.  The fields \<open>x\<close>, \<open>y\<close>, \<open>z\<close>, \<open>confidence\<close> of
  \<open>KeyPoint\<close> carry the prefix \<open>kp_\<close>, and the \<open>timestamp\<close> of \<open>FeedbackItem\<close>
  is \<open>item_timestamp\<close>, so that no field name hides a variable or another field.
\<close>

record KeyPoint =
  kp_x :: real
  kp_y :: real
  kp_z :: "real option"
  kp_confidence :: "real option"

record Frame =
  timestamp :: real
  keypoints :: "KeyPoint list"

record MotionData =
  frames :: "Frame list"
  audio_bpm :: "real option"
  reference_motion :: "string option"

record TimingMetrics =
  avg_lag_ms :: real
  sync_score :: real
  on_beat_percentage :: real

record MovementMetrics =
  smoothness_score :: real
  accuracy_score :: real
  energy_score :: real
  form_score :: real

record FeedbackItem =
  category :: string
  message :: string
  severity :: string
  item_timestamp :: "real option"

text \<open>The range constraints that models.py declares on the fields of the two metric
  bundles (\<open>ge\<close>, \<open>le\<close>); constructing a bundle outside them raises a validation
  error.\<close>

definition TimingMetrics_valid :: "TimingMetrics \<Rightarrow> bool" where
  "TimingMetrics_valid tm \<longleftrightarrow>
     0 \<le> sync_score tm \<and> sync_score tm \<le> 1 \<and>
     0 \<le> on_beat_percentage tm \<and> on_beat_percentage tm \<le> 100"

definition MovementMetrics_valid :: "MovementMetrics \<Rightarrow> bool" where
  "MovementMetrics_valid mm \<longleftrightarrow>
     0 \<le> smoothness_score mm \<and> smoothness_score mm \<le> 1 \<and>
     0 \<le> accuracy_score mm \<and> accuracy_score mm \<le> 1 \<and>
     0 \<le> energy_score mm \<and> energy_score mm \<le> 1 \<and>
     0 \<le> form_score mm \<and> form_score mm \<le> 1"

section \<open>Library functions used by analyzer.py\<close>

text \<open>numpy's \<open>mean\<close>, \<open>var\<close> (population variance), \<open>std\<close>, \<open>diff\<close> and \<open>clip\<close>.
  The analyzer calls \<open>mean\<close>, \<open>var\<close> and \<open>std\<close> on non-empty sequences only.\<close>

definition np_mean :: "real list \<Rightarrow> real" where
  "np_mean xs = sum_list xs / real (length xs)"

definition np_var :: "real list \<Rightarrow> real" where
  "np_var xs = (let m = np_mean xs in np_mean (map (\<lambda>v. (v - m)\<^sup>2) xs))"

definition np_std :: "real list \<Rightarrow> real" where
  "np_std xs = sqrt (np_var xs)"

fun np_diff :: "real list \<Rightarrow> real list" where
  "np_diff (a # b # rest) = (b - a) # np_diff (b # rest)"
| "np_diff _ = []"

definition np_clip :: "real \<Rightarrow> real \<Rightarrow> real \<Rightarrow> real" where
  "np_clip v lo hi = min (max v lo) hi"

text \<open>numpy's \<open>percentile\<close> with its default linear interpolation: the value at the
  fractional position \<open>(n - 1) * q / 100\<close> of the sorted sequence.\<close>

definition np_percentile :: "real list \<Rightarrow> real \<Rightarrow> real" where
  "np_percentile xs q =
     (let s = sort xs;
          n = length s;
          pos = real (n - 1) * q / 100;
          j = nat \<lfloor>pos\<rfloor>;
          g = pos - real j
      in if j + 1 < n then s ! j + g * (s ! (j + 1) - s ! j) else s ! j)"

text \<open>Python's \<open>round\<close> of a float to an integer: ties go to the even neighbour.\<close>

definition py_round :: "real \<Rightarrow> int" where
  "py_round v =
     (let f = \<lfloor>v\<rfloor>; d = v - of_int f
      in if d < 1 / 2 then f
         else if 1 / 2 < d then f + 1
         else if even f then f else f + 1)"

section \<open>Kinematics (analyzer.py, \<open>_calculate_velocities\<close>, \<open>_calculate_accelerations\<close>)\<close>

text \<open>\<open>(kp.z or 0)\<close>: a missing depth, and a depth of zero, both give zero.\<close>

definition z_or_0 :: "KeyPoint \<Rightarrow> real" where
  "z_or_0 kp = (case kp_z kp of None \<Rightarrow> 0 | Some v \<Rightarrow> (if v = 0 then 0 else v))"

definition kp_displacement :: "KeyPoint \<Rightarrow> KeyPoint \<Rightarrow> real" where
  "kp_displacement kp_curr kp_prev =
     (let dx = kp_x kp_curr - kp_x kp_prev;
          dy = kp_y kp_curr - kp_y kp_prev;
          dz = z_or_0 kp_curr - z_or_0 kp_prev
      in sqrt (dx\<^sup>2 + dy\<^sup>2 + dz\<^sup>2))"

text \<open>The inner loop over the keypoints of frame \<open>i\<close> that have a partner in frame
  \<open>i - 1\<close>, followed by \<open>displacement / max(count, 1)\<close>.\<close>

definition avg_displacement :: "Frame \<Rightarrow> Frame \<Rightarrow> real" where
  "avg_displacement prev cur =
     (let pairs = zip (keypoints cur) (keypoints prev);
          displacement = sum_list (map (\<lambda>(c, p). kp_displacement c p) pairs);
          count = length pairs
      in displacement / real (max count 1))"

definition frame_dt :: "Frame \<Rightarrow> Frame \<Rightarrow> real" where
  "frame_dt prev cur =
     (let dt = timestamp cur - timestamp prev
      in if dt \<le> 0 then 0.033 else dt)"

definition frame_velocity :: "Frame \<Rightarrow> Frame \<Rightarrow> real" where
  "frame_velocity prev cur = avg_displacement prev cur / frame_dt prev cur"

text \<open>The outer loop \<open>for i in range(1, len(frames))\<close>.\<close>

fun velocities_loop :: "Frame list \<Rightarrow> real list" where
  "velocities_loop (prev # cur # rest) =
     frame_velocity prev cur # velocities_loop (cur # rest)"
| "velocities_loop _ = []"

definition calculate_velocities :: "Frame list \<Rightarrow> real list" where
  "calculate_velocities fs =
     (if length fs < 2 then [0] else velocities_loop fs)"

definition calculate_accelerations :: "real list \<Rightarrow> real list" where
  "calculate_accelerations velocities =
     (if length velocities < 2 then [0] else np_diff velocities)"

section \<open>Peak detection (\<open>_detect_movement_peaks\<close>)\<close>

definition is_peak :: "real list \<Rightarrow> real \<Rightarrow> nat \<Rightarrow> bool" where
  "is_peak velocities threshold i \<longleftrightarrow>
     velocities ! i > threshold \<and>
     velocities ! i > velocities ! (i - 1) \<and>
     velocities ! i > velocities ! (i + 1)"

definition detect_movement_peaks_at :: "real list \<Rightarrow> real \<Rightarrow> real list" where
  "detect_movement_peaks_at velocities threshold_percentile =
     (if length velocities < 3 then []
      else let threshold = np_percentile velocities threshold_percentile
           in map (\<lambda>i. real i * 0.033)
                (filter (is_peak velocities threshold) [1 ..< length velocities - 1]))"

definition detect_movement_peaks :: "real list \<Rightarrow> real list" where
  "detect_movement_peaks velocities = detect_movement_peaks_at velocities 75"

section \<open>Timing (\<open>_analyze_timing\<close>)\<close>

text \<open>The loop over the peaks, carrying \<open>(on_beat_count, lag_sum)\<close>.\<close>

fun timing_loop :: "real \<Rightarrow> real list \<Rightarrow> nat \<times> real \<Rightarrow> nat \<times> real" where
  "timing_loop beat_interval [] acc = acc"
| "timing_loop beat_interval (peak_time # rest) (on_beat_count, lag_sum) =
     (let nearest_beat = of_int (py_round (peak_time / beat_interval)) * beat_interval;
          lag = \<bar>peak_time - nearest_beat\<bar>
      in timing_loop beat_interval rest
           (if lag < 0.1 then on_beat_count + 1 else on_beat_count, lag_sum + lag))"

text \<open>\<open>if motion_data.audio_bpm:\<close> is false for an absent tempo and for a tempo of
  zero.\<close>

definition bpm_truthy :: "real option \<Rightarrow> bool" where
  "bpm_truthy b = (case b of None \<Rightarrow> False | Some v \<Rightarrow> v \<noteq> 0)"

definition analyze_timing :: "MotionData \<Rightarrow> TimingMetrics" where
  "analyze_timing motion_data =
     (if bpm_truthy (audio_bpm motion_data) then
        let beat_interval = 60 / the (audio_bpm motion_data);
            velocities = calculate_velocities (frames motion_data);
            peaks = detect_movement_peaks velocities;
            total_peaks = length peaks;
            (on_beat_count, lag_sum) = timing_loop beat_interval peaks (0, 0);
            lag_ms = (lag_sum / real (max total_peaks 1)) * 1000;
            on_beat = (real on_beat_count / real (max total_peaks 1)) * 100;
            sync = 1 - min (lag_ms / 200) 1
        in \<lparr>avg_lag_ms = lag_ms, sync_score = sync, on_beat_percentage = on_beat\<rparr>
      else \<lparr>avg_lag_ms = 0, sync_score = 1, on_beat_percentage = 100\<rparr>)"

section \<open>Movement quality (\<open>_analyze_movement\<close>)\<close>

definition calculate_smoothness :: "real list \<Rightarrow> real" where
  "calculate_smoothness accelerations =
     (if length accelerations = 0 then 1
      else let variance = np_var accelerations;
               smoothness = 1 / (1 + variance / 100)
           in np_clip smoothness 0 1)"

definition calculate_energy :: "real list \<Rightarrow> real" where
  "calculate_energy velocities =
     (if length velocities = 0 then 0.5
      else let avg_velocity = np_mean velocities;
               energy = avg_velocity / 10
           in np_clip energy 0 1)"

text \<open>The body of the loop of \<open>_calculate_accuracy\<close> for a frame with keypoints.
  Such a frame has as many distances as keypoints, so the test \<open>if distances\<close> of the
  source always succeeds for it; frames without keypoints are skipped.\<close>

definition frame_spread :: "KeyPoint list \<Rightarrow> real" where
  "frame_spread kps =
     (let center_x = np_mean (map kp_x kps);
          center_y = np_mean (map kp_y kps);
          distances = map (\<lambda>kp. sqrt ((kp_x kp - center_x)\<^sup>2 + (kp_y kp - center_y)\<^sup>2)) kps
      in np_std distances)"

definition consistency_scores :: "Frame list \<Rightarrow> real list" where
  "consistency_scores fs =
     map (\<lambda>f. frame_spread (keypoints f)) (filter (\<lambda>f. length (keypoints f) \<noteq> 0) fs)"

definition calculate_accuracy :: "Frame list \<Rightarrow> real" where
  "calculate_accuracy fs =
     (if length fs < 2 then 1
      else let scores = consistency_scores fs
           in if scores = [] then 1
              else let avg_std = np_mean scores;
                       accuracy = 1 / (1 + avg_std)
                   in np_clip accuracy 0 1)"

definition frame_confidences :: "Frame \<Rightarrow> real list" where
  "frame_confidences f = List.map_filter kp_confidence (keypoints f)"

definition form_scores :: "Frame list \<Rightarrow> real list" where
  "form_scores fs =
     map (\<lambda>f. np_mean (frame_confidences f))
       (filter (\<lambda>f. length (keypoints f) \<noteq> 0 \<and> frame_confidences f \<noteq> []) fs)"

definition calculate_form :: "Frame list \<Rightarrow> real" where
  "calculate_form fs =
     (if length fs = 0 then 1
      else let scores = form_scores fs
           in if scores = [] then 0.8
              else np_clip (np_mean scores) 0 1)"

definition analyze_movement :: "MotionData \<Rightarrow> MovementMetrics" where
  "analyze_movement motion_data =
     (let fs = frames motion_data;
          velocities = calculate_velocities fs;
          accelerations = calculate_accelerations velocities
      in \<lparr>smoothness_score = calculate_smoothness accelerations,
          accuracy_score = calculate_accuracy fs,
          energy_score = calculate_energy velocities,
          form_score = calculate_form fs\<rparr>)"

section \<open>Feedback (\<open>_generate_feedback\<close>)\<close>

text \<open>The seven rules, in the order of the source.  \<open>fmt_1f\<close> stands for Python's
  formatting of a float with one decimal (\<open>:.1f\<close>), which the first message embeds.\<close>

definition timing_warning_item :: "(real \<Rightarrow> string) \<Rightarrow> TimingMetrics \<Rightarrow> FeedbackItem" where
  "timing_warning_item fmt_1f timing_metrics =
     \<lparr>category = ''timing'',
      message = ''Your timing is off. Try to sync your movements with the beat. ''
                @ ''You're hitting '' @ fmt_1f (on_beat_percentage timing_metrics)
                @ ''% of beats on time.'',
      severity = ''warning'',
      item_timestamp = None\<rparr>"

definition timing_info_item :: FeedbackItem where
  "timing_info_item =
     \<lparr>category = ''timing'',
      message = ''Excellent timing! You're perfectly synced with the music.'',
      severity = ''info'',
      item_timestamp = None\<rparr>"

definition smoothness_item :: FeedbackItem where
  "smoothness_item =
     \<lparr>category = ''form'',
      message = ''Your movements are a bit jerky. Focus on flowing smoothly between positions.'',
      severity = ''warning'',
      item_timestamp = None\<rparr>"

definition low_energy_item :: FeedbackItem where
  "low_energy_item =
     \<lparr>category = ''energy'',
      message = ''Put more energy into your movements! Go bigger and stronger.'',
      severity = ''info'',
      item_timestamp = None\<rparr>"

definition high_energy_item :: FeedbackItem where
  "high_energy_item =
     \<lparr>category = ''energy'',
      message = ''Great energy! Keep up that intensity.'',
      severity = ''info'',
      item_timestamp = None\<rparr>"

definition form_item :: FeedbackItem where
  "form_item =
     \<lparr>category = ''form'',
      message = ''Pay attention to your posture and alignment. Keep your core engaged.'',
      severity = ''warning'',
      item_timestamp = None\<rparr>"

definition accuracy_item :: FeedbackItem where
  "accuracy_item =
     \<lparr>category = ''accuracy'',
      message = ''Your movements are inconsistent. Try to replicate the reference motion more precisely.'',
      severity = ''warning'',
      item_timestamp = None\<rparr>"

definition overall_item :: FeedbackItem where
  "overall_item =
     \<lparr>category = ''overall'',
      message = ''Outstanding performance! All metrics look great.'',
      severity = ''info'',
      item_timestamp = None\<rparr>"

definition timing_rule :: "(real \<Rightarrow> string) \<Rightarrow> TimingMetrics \<Rightarrow> FeedbackItem list" where
  "timing_rule fmt_1f timing_metrics =
     (if sync_score timing_metrics < 0.7 then [timing_warning_item fmt_1f timing_metrics]
      else if sync_score timing_metrics \<ge> 0.9 then [timing_info_item]
      else [])"

definition smoothness_rule :: "MovementMetrics \<Rightarrow> FeedbackItem list" where
  "smoothness_rule movement_metrics =
     (if smoothness_score movement_metrics < 0.6 then [smoothness_item] else [])"

definition energy_rule :: "MovementMetrics \<Rightarrow> FeedbackItem list" where
  "energy_rule movement_metrics =
     (if energy_score movement_metrics < 0.5 then [low_energy_item]
      else if energy_score movement_metrics > 0.9 then [high_energy_item]
      else [])"

definition form_rule :: "MovementMetrics \<Rightarrow> FeedbackItem list" where
  "form_rule movement_metrics =
     (if form_score movement_metrics < 0.7 then [form_item] else [])"

definition accuracy_rule :: "MovementMetrics \<Rightarrow> FeedbackItem list" where
  "accuracy_rule movement_metrics =
     (if accuracy_score movement_metrics < 0.7 then [accuracy_item] else [])"

definition generate_feedback ::
  "(real \<Rightarrow> string) \<Rightarrow> TimingMetrics \<Rightarrow> MovementMetrics \<Rightarrow> MotionData \<Rightarrow> FeedbackItem list" where
  "generate_feedback fmt_1f timing_metrics movement_metrics motion_data =
     (let feedback = timing_rule fmt_1f timing_metrics
                     @ smoothness_rule movement_metrics
                     @ energy_rule movement_metrics
                     @ form_rule movement_metrics
                     @ accuracy_rule movement_metrics
      in if feedback = [] then feedback @ [overall_item] else feedback)"

section \<open>Overall score and the entry point\<close>

definition calculate_overall_score :: "TimingMetrics \<Rightarrow> MovementMetrics \<Rightarrow> real" where
  "calculate_overall_score timing_metrics movement_metrics =
     (let score = (0.25 * sync_score timing_metrics
                   + 0.20 * smoothness_score movement_metrics
                   + 0.25 * accuracy_score movement_metrics
                   + 0.15 * energy_score movement_metrics
                   + 0.15 * form_score movement_metrics) * 100
      in np_clip score 0 100)"

definition analyze ::
  "(real \<Rightarrow> string) \<Rightarrow> MotionData \<Rightarrow> TimingMetrics \<times> MovementMetrics \<times> FeedbackItem list" where
  "analyze fmt_1f motion_data =
     (let timing_metrics = analyze_timing motion_data;
          movement_metrics = analyze_movement motion_data;
          feedback = generate_feedback fmt_1f timing_metrics movement_metrics motion_data
      in (timing_metrics, movement_metrics, feedback))"

section \<open>Scenarios\<close>

text \<open>\<open>KeyPoint(x=..., y=...)\<close>: depth and confidence take their default, \<open>None\<close>.\<close>

definition KeyPoint_xy :: "real \<Rightarrow> real \<Rightarrow> KeyPoint" where
  "KeyPoint_xy vx vy = \<lparr>kp_x = vx, kp_y = vy, kp_z = None, kp_confidence = None\<rparr>"

text \<open>Two frames a tenth of a second apart, one keypoint moving from the origin to
  \<open>(1, 0)\<close>, no tempo.\<close>

definition scenario_frames :: "Frame list" where
  "scenario_frames =
     [\<lparr>timestamp = 0, keypoints = [KeyPoint_xy 0 0]\<rparr>,
      \<lparr>timestamp = 0.1, keypoints = [KeyPoint_xy 1 0]\<rparr>]"

definition scenario_motion :: MotionData where
  "scenario_motion =
     \<lparr>frames = scenario_frames, audio_bpm = None, reference_motion = None\<rparr>"

text \<open>The same movement with a repeated timestamp.\<close>

definition stalled_frames :: "Frame list" where
  "stalled_frames =
     [\<lparr>timestamp = 0, keypoints = [KeyPoint_xy 0 0]\<rparr>,
      \<lparr>timestamp = 0, keypoints = [KeyPoint_xy 1 0]\<rparr>]"

text \<open>A single frame with a tempo of 120 beats per minute.\<close>

definition single_frame_motion :: MotionData where
  "single_frame_motion =
     \<lparr>frames = [\<lparr>timestamp = 0, keypoints = [KeyPoint_xy 0 0]\<rparr>],
      audio_bpm = Some 120, reference_motion = None\<rparr>"

text \<open>Whether one of the seven threshold rules of the feedback table applies.\<close>

definition any_rule_fired :: "TimingMetrics \<Rightarrow> MovementMetrics \<Rightarrow> bool" where
  "any_rule_fired tm mm \<longleftrightarrow>
     sync_score tm < 0.7 \<or> sync_score tm \<ge> 0.9 \<or>
     smoothness_score mm < 0.6 \<or>
     energy_score mm < 0.5 \<or> energy_score mm > 0.9 \<or>
     form_score mm < 0.7 \<or>
     accuracy_score mm < 0.7"

section \<open>Bounds of the metrics\<close>

lemma timing_loop_lag_nonneg:
  "0 \<le> s \<Longrightarrow> 0 \<le> snd (timing_loop bi ps (c, s))"
  by (induction ps arbitrary: c s) (simp_all add: Let_def)

lemma sync_bounds:
  "0 \<le> sync_score (analyze_timing md) \<and> sync_score (analyze_timing md) \<le> 1"
proof (cases "bpm_truthy (audio_bpm md)")
  case False
  then show ?thesis by (simp add: analyze_timing_def)
next
  case True
  define bi where "bi = 60 / the (audio_bpm md)"
  define ps where "ps = detect_movement_peaks (calculate_velocities (frames md))"
  obtain c s where cs: "timing_loop bi ps (0, 0) = (c, s)" by (cases "timing_loop bi ps (0, 0)")
  define L where "L = s / real (max (length ps) 1) * 1000"
  have "0 \<le> s" using timing_loop_lag_nonneg [of 0 bi ps 0] cs by simp
  then have lag: "0 \<le> L" by (simp add: L_def)
  have eq: "sync_score (analyze_timing md) = 1 - min (L / 200) 1"
    using True cs by (simp add: analyze_timing_def Let_def bi_def ps_def L_def)
  show ?thesis unfolding eq using lag by (auto simp: min_def)
qed

lemma smoothness_bounds: "0 \<le> calculate_smoothness a \<and> calculate_smoothness a \<le> 1"
  by (simp add: calculate_smoothness_def Let_def np_clip_def)

lemma energy_bounds: "0 \<le> calculate_energy v \<and> calculate_energy v \<le> 1"
  by (simp add: calculate_energy_def Let_def np_clip_def)

lemma accuracy_bounds: "0 \<le> calculate_accuracy fs \<and> calculate_accuracy fs \<le> 1"
  by (simp add: calculate_accuracy_def Let_def np_clip_def)

lemma form_bounds: "0 \<le> calculate_form fs \<and> calculate_form fs \<le> 1"
  by (simp add: calculate_form_def Let_def np_clip_def)

lemma overall_bounds:
  "0 \<le> calculate_overall_score tm mm \<and> calculate_overall_score tm mm \<le> 100"
  by (simp add: calculate_overall_score_def Let_def np_clip_def)

lemma timing_loop_count:
  "fst (timing_loop bi ps (c, s)) \<le> c + length ps"
proof (induction ps arbitrary: c s)
  case Nil
  show ?case by simp
next
  case (Cons p ps)
  have up: "fst (timing_loop bi ps (Suc c, s')) \<le> Suc (c + length ps)" for s'
    using Cons.IH [of "Suc c" s'] by simp
  have same: "fst (timing_loop bi ps (c, s')) \<le> Suc (c + length ps)" for s'
    using Cons.IH [of c s'] by simp
  show ?case by (simp add: Let_def up same)
qed

lemma on_beat_bounds:
  "0 \<le> on_beat_percentage (analyze_timing md) \<and> on_beat_percentage (analyze_timing md) \<le> 100"
proof (cases "bpm_truthy (audio_bpm md)")
  case False
  then show ?thesis by (simp add: analyze_timing_def)
next
  case True
  define bi where "bi = 60 / the (audio_bpm md)"
  define ps where "ps = detect_movement_peaks (calculate_velocities (frames md))"
  obtain c s where cs: "timing_loop bi ps (0, 0) = (c, s)" by (cases "timing_loop bi ps (0, 0)")
  define r where "r = real c / real (max (length ps) 1)"
  have "c \<le> length ps" using timing_loop_count [of bi ps 0 0] cs by simp
  then have le: "real c \<le> real (max (length ps) 1)" by simp
  have pos: "0 < real (max (length ps) 1)" by simp
  have r1: "r \<le> 1" unfolding r_def using le pos by (simp only: divide_le_eq_1_pos)
  have r0: "0 \<le> r" unfolding r_def by simp
  have eq: "on_beat_percentage (analyze_timing md) = r * 100"
    using True cs by (simp add: analyze_timing_def Let_def bi_def ps_def r_def)
  show ?thesis unfolding eq using r0 r1 by simp
qed

text \<open>The bundles that the analyzer constructs satisfy the range constraints of
  models.py, so their construction never fails.\<close>

lemma analyze_timing_valid: "TimingMetrics_valid (analyze_timing md)"
  using sync_bounds [of md] on_beat_bounds [of md] by (simp add: TimingMetrics_valid_def)

lemma analyze_movement_valid: "MovementMetrics_valid (analyze_movement md)"
  using smoothness_bounds energy_bounds accuracy_bounds form_bounds
  by (simp add: MovementMetrics_valid_def analyze_movement_def Let_def)

text \<open>
  C1.  Whatever the motion data, the five scores that \<open>analyze\<close> returns lie between
  0 and 1, and the overall score computed from them lies between 0 and 100.  The
  statement needs no validity assumption on the input, so it covers every structurally
  valid one.
\<close>

theorem analyze_bounds:
  "(case analyze fmt_1f md of (tm, mm, fb) \<Rightarrow>
      0 \<le> sync_score tm \<and> sync_score tm \<le> 1 \<and>
      0 \<le> smoothness_score mm \<and> smoothness_score mm \<le> 1 \<and>
      0 \<le> accuracy_score mm \<and> accuracy_score mm \<le> 1 \<and>
      0 \<le> energy_score mm \<and> energy_score mm \<le> 1 \<and>
      0 \<le> form_score mm \<and> form_score mm \<le> 1 \<and>
      0 \<le> calculate_overall_score tm mm \<and> calculate_overall_score tm mm \<le> 100)"
  using sync_bounds [of md] smoothness_bounds energy_bounds accuracy_bounds form_bounds overall_bounds
  by (simp add: analyze_def analyze_movement_def Let_def)

section \<open>Timing defaults\<close>

text \<open>
  C3.  When the tempo is absent, the timing metrics returned by \<open>analyze\<close> are the
  fixed defaults: an average lag of 0, a synchronisation score of 1 and an on-beat
  percentage of 100, whatever the frames are.
\<close>

theorem no_tempo_default:
  "fst (analyze fmt_1f (md\<lparr>audio_bpm := None\<rparr>)) =
     \<lparr>avg_lag_ms = 0, sync_score = 1, on_beat_percentage = 100\<rparr>"
  by (simp add: analyze_def analyze_timing_def bpm_truthy_def Let_def)

section \<open>The two-frame scenario\<close>

lemma scenario_velocities: "calculate_velocities scenario_frames = [10]"
  by (simp add: calculate_velocities_def scenario_frames_def frame_velocity_def frame_dt_def
      avg_displacement_def kp_displacement_def z_or_0_def KeyPoint_xy_def Let_def)

lemma scenario_accelerations: "calculate_accelerations [10] = [0]"
  by (simp add: calculate_accelerations_def)

lemma scenario_smoothness: "calculate_smoothness [0] = 1"
  by (simp add: calculate_smoothness_def np_var_def np_mean_def np_clip_def Let_def)

lemma scenario_energy: "calculate_energy [10] = 1"
  by (simp add: calculate_energy_def np_mean_def np_clip_def Let_def)

lemma scenario_form: "calculate_form scenario_frames = 0.8"
  by (simp add: calculate_form_def form_scores_def frame_confidences_def scenario_frames_def
      KeyPoint_xy_def Let_def)

lemma frame_spread_single: "frame_spread [kp] = 0"
  by (simp add: frame_spread_def np_std_def np_var_def np_mean_def Let_def)

lemma scenario_accuracy: "calculate_accuracy scenario_frames = 1"
  by (simp add: calculate_accuracy_def consistency_scores_def scenario_frames_def
      frame_spread_single np_mean_def np_clip_def Let_def)

lemma scenario_movement:
  "analyze_movement scenario_motion =
     \<lparr>smoothness_score = 1, accuracy_score = 1, energy_score = 1, form_score = 0.8\<rparr>"
  by (simp add: analyze_movement_def scenario_motion_def scenario_velocities
      scenario_accelerations scenario_smoothness scenario_energy scenario_form
      scenario_accuracy Let_def)

lemma scenario_timing:
  "analyze_timing scenario_motion =
     \<lparr>avg_lag_ms = 0, sync_score = 1, on_beat_percentage = 100\<rparr>"
  by (simp add: analyze_timing_def scenario_motion_def bpm_truthy_def)

text \<open>
  C2.  For the two frames at timestamps 0.0 and 0.1 with one keypoint moving from
  \<open>(0, 0)\<close> to \<open>(1, 0)\<close>, without depth, confidence or tempo, the velocity sequence
  is \<open>[10]\<close>, the acceleration sequence is \<open>[0]\<close>, \<open>analyze\<close> gives smoothness 1,
  energy 1, form 0.8 and accuracy 1 with the no-tempo timing defaults, and the overall
  score is 97.
\<close>

theorem concrete_scenario:
  "calculate_velocities (frames scenario_motion) = [10] \<and>
   calculate_accelerations (calculate_velocities (frames scenario_motion)) = [0] \<and>
   fst (snd (analyze fmt_1f scenario_motion)) =
     \<lparr>smoothness_score = 1, accuracy_score = 1, energy_score = 1, form_score = 0.8\<rparr> \<and>
   fst (analyze fmt_1f scenario_motion) =
     \<lparr>avg_lag_ms = 0, sync_score = 1, on_beat_percentage = 100\<rparr> \<and>
   calculate_overall_score (fst (analyze fmt_1f scenario_motion))
     (fst (snd (analyze fmt_1f scenario_motion))) = 97"
proof -
  have fr: "frames scenario_motion = scenario_frames" by (simp add: scenario_motion_def)
  have a: "analyze fmt_1f scenario_motion =
     (\<lparr>avg_lag_ms = 0, sync_score = 1, on_beat_percentage = 100\<rparr>,
      \<lparr>smoothness_score = 1, accuracy_score = 1, energy_score = 1, form_score = 0.8\<rparr>,
      generate_feedback fmt_1f (analyze_timing scenario_motion)
        (analyze_movement scenario_motion) scenario_motion)"
    by (simp add: analyze_def scenario_timing scenario_movement Let_def)
  show ?thesis
    by (simp add: fr a scenario_velocities scenario_accelerations calculate_overall_score_def
        np_clip_def Let_def)
qed

section \<open>Timing without peaks\<close>

text \<open>
  C5.  When a tempo is present (the data model admits only a positive one; a non-zero
  one is all the proof needs) and the peak detector finds no peak in the velocities of
  the frames, the timing metrics are an on-beat percentage of 0, an average lag of 0
  and a synchronisation score of 1.
\<close>

theorem no_peaks_timing:
  assumes "audio_bpm md = Some b" and "b \<noteq> 0"
    and "detect_movement_peaks (calculate_velocities (frames md)) = []"
  shows "fst (analyze fmt_1f md) = \<lparr>avg_lag_ms = 0, sync_score = 1, on_beat_percentage = 0\<rparr>"
  using assms by (simp add: analyze_def analyze_timing_def bpm_truthy_def Let_def)

theorem no_peaks_timing_witness:
  "audio_bpm single_frame_motion = Some 120 \<and> (120::real) \<noteq> 0 \<and>
   detect_movement_peaks (calculate_velocities (frames single_frame_motion)) = [] \<and>
   fst (analyze (\<lambda>v. ''0.0'') single_frame_motion) =
     \<lparr>avg_lag_ms = 0, sync_score = 1, on_beat_percentage = 0\<rparr>"
proof -
  have b: "audio_bpm single_frame_motion = Some 120"
    by (simp add: single_frame_motion_def)
  have p: "detect_movement_peaks (calculate_velocities (frames single_frame_motion)) = []"
    by (simp add: single_frame_motion_def calculate_velocities_def detect_movement_peaks_def
        detect_movement_peaks_at_def)
  show ?thesis using no_peaks_timing [OF b _ p, of "\<lambda>v. ''0.0''"] b p by simp
qed

section \<open>Feedback rules\<close>

lemma timing_rule_category: "i \<in> set (timing_rule fmt_1f tm) \<Longrightarrow> category i \<noteq> ''overall''"
  by (auto simp: timing_rule_def timing_warning_item_def timing_info_item_def split: if_splits)

lemma smoothness_rule_category: "i \<in> set (smoothness_rule mm) \<Longrightarrow> category i \<noteq> ''overall''"
  by (auto simp: smoothness_rule_def smoothness_item_def split: if_splits)

lemma energy_rule_category: "i \<in> set (energy_rule mm) \<Longrightarrow> category i \<noteq> ''overall''"
  by (auto simp: energy_rule_def low_energy_item_def high_energy_item_def split: if_splits)

lemma form_rule_category: "i \<in> set (form_rule mm) \<Longrightarrow> category i \<noteq> ''overall''"
  by (auto simp: form_rule_def form_item_def split: if_splits)

lemma accuracy_rule_category: "i \<in> set (accuracy_rule mm) \<Longrightarrow> category i \<noteq> ''overall''"
  by (auto simp: accuracy_rule_def accuracy_item_def split: if_splits)

lemma rule_categories:
  "\<forall>i \<in> set (timing_rule fmt_1f tm @ smoothness_rule mm @ energy_rule mm
      @ form_rule mm @ accuracy_rule mm). category i \<noteq> ''overall''"
  using timing_rule_category smoothness_rule_category energy_rule_category
    form_rule_category accuracy_rule_category
  by (metis Un_iff set_append)

lemma rules_empty_iff:
  "timing_rule fmt_1f tm @ smoothness_rule mm @ energy_rule mm
      @ form_rule mm @ accuracy_rule mm = [] \<longleftrightarrow> \<not> any_rule_fired tm mm"
  by (auto simp: timing_rule_def smoothness_rule_def energy_rule_def form_rule_def
      accuracy_rule_def any_rule_fired_def)

lemma filter_none: "\<forall>i \<in> set xs. \<not> P i \<Longrightarrow> filter P xs = []"
  by (induction xs) simp_all

text \<open>
  C4.  The feedback list is never empty.  It holds the fallback item (category
  \<open>overall\<close>, severity \<open>info\<close>, the fixed congratulation) exactly once when none of
  the seven threshold rules applies, and no item of category \<open>overall\<close> at all when
  one of them does.
\<close>

theorem feedback_fallback:
  "generate_feedback fmt_1f tm mm md \<noteq> [] \<and>
   length (filter (\<lambda>i. category i = ''overall'') (generate_feedback fmt_1f tm mm md)) =
     (if any_rule_fired tm mm then 0 else 1) \<and>
   count_list (generate_feedback fmt_1f tm mm md) overall_item =
     (if any_rule_fired tm mm then 0 else 1)"
proof -
  define rs where "rs = timing_rule fmt_1f tm @ smoothness_rule mm @ energy_rule mm
      @ form_rule mm @ accuracy_rule mm"
  have cat: "\<forall>i \<in> set rs. category i \<noteq> ''overall''"
    unfolding rs_def by (rule rule_categories)
  have emp: "rs = [] \<longleftrightarrow> \<not> any_rule_fired tm mm"
    unfolding rs_def by (rule rules_empty_iff)
  have gf: "generate_feedback fmt_1f tm mm md = (if rs = [] then [overall_item] else rs)"
    by (simp add: generate_feedback_def rs_def Let_def)
  have f0: "filter (\<lambda>i. category i = ''overall'') rs = []"
    using cat by (intro filter_none) simp
  have "overall_item \<notin> set rs"
    using cat by (auto simp: overall_item_def)
  then have c0: "count_list rs overall_item = 0"
    by (simp add: count_list_0_iff)
  show ?thesis
    using emp f0 c0 by (simp add: gf overall_item_def)
qed

text \<open>
  C9.  With a synchronisation score of 0.5, smoothness 0.9, energy 0.95, form 0.9 and
  accuracy 0.9, the feedback is exactly two items in this order: the timing warning,
  then the high-energy note; there is no further item and no fallback.
\<close>

theorem feedback_ordering:
  "generate_feedback fmt_1f
      \<lparr>avg_lag_ms = lag, sync_score = 0.5, on_beat_percentage = pct\<rparr>
      \<lparr>smoothness_score = 0.9, accuracy_score = 0.9, energy_score = 0.95, form_score = 0.9\<rparr>
      md =
     [timing_warning_item fmt_1f \<lparr>avg_lag_ms = lag, sync_score = 0.5, on_beat_percentage = pct\<rparr>,
      high_energy_item] \<and>
   map (\<lambda>i. (category i, severity i))
     (generate_feedback fmt_1f
        \<lparr>avg_lag_ms = lag, sync_score = 0.5, on_beat_percentage = pct\<rparr>
        \<lparr>smoothness_score = 0.9, accuracy_score = 0.9, energy_score = 0.95, form_score = 0.9\<rparr>
        md) =
     [(''timing'', ''warning''), (''energy'', ''info'')]"
  by (simp add: generate_feedback_def timing_rule_def smoothness_rule_def energy_rule_def
      form_rule_def accuracy_rule_def timing_warning_item_def high_energy_item_def Let_def)

section \<open>Velocities\<close>

lemma velocities_loop_length: "length (velocities_loop fs) = length fs - 1"
  by (induction fs rule: velocities_loop.induct) simp_all

text \<open>
  C10.  A single frame gives the velocity sequence \<open>[0]\<close>, so \<open>analyze\<close> reports an
  energy score of 0 for it; and the velocity sequence is never empty, whatever the
  frames, so the energy default for an empty sequence is never taken inside
  \<open>analyze\<close>.
\<close>

theorem single_frame_velocities:
  "calculate_velocities [f] = [0] \<and>
   energy_score (fst (snd (analyze fmt_1f (md\<lparr>frames := [f]\<rparr>)))) = 0 \<and>
   length (calculate_velocities fs) \<noteq> 0"
proof -
  have v: "calculate_velocities [f] = [0]" by (simp add: calculate_velocities_def)
  have e: "energy_score (fst (snd (analyze fmt_1f (md\<lparr>frames := [f]\<rparr>)))) = 0"
    by (simp add: analyze_def analyze_movement_def v calculate_energy_def np_mean_def
        np_clip_def Let_def)
  have n: "length (calculate_velocities fs) \<noteq> 0"
    using velocities_loop_length [of fs] by (auto simp: calculate_velocities_def)
  show ?thesis using v e n by simp
qed

lemma velocities_loop_nth:
  "Suc i < length fs \<Longrightarrow> velocities_loop fs ! i = frame_velocity (fs ! i) (fs ! Suc i)"
proof (induction fs arbitrary: i rule: velocities_loop.induct)
  case (1 prev cur rest)
  then show ?case by (cases i) simp_all
qed simp_all

lemma stalled_avg: "avg_displacement (stalled_frames ! 0) (stalled_frames ! Suc 0) = 1"
  by (simp add: stalled_frames_def avg_displacement_def kp_displacement_def z_or_0_def
      KeyPoint_xy_def)

text \<open>
  C6, as amended.  For every pair of consecutive frames whose timestamp difference is
  zero or negative, the velocity is the average keypoint displacement divided by the
  constant 0.033 (the source's approximation of a thirtieth of a second).
\<close>

theorem nonpositive_dt_default:
  assumes "Suc i < length fs"
    and "timestamp (fs ! Suc i) - timestamp (fs ! i) \<le> 0"
  shows "calculate_velocities fs ! i = avg_displacement (fs ! i) (fs ! Suc i) / 0.033"
  using assms
  by (simp add: calculate_velocities_def velocities_loop_nth frame_velocity_def frame_dt_def)

theorem nonpositive_dt_default_witness:
  "Suc 0 < length stalled_frames \<and>
   timestamp (stalled_frames ! Suc 0) - timestamp (stalled_frames ! 0) \<le> 0 \<and>
   calculate_velocities stalled_frames ! 0 = 1000 / 33"
proof -
  have l: "Suc 0 < length stalled_frames" by (simp add: stalled_frames_def)
  have t: "timestamp (stalled_frames ! Suc 0) - timestamp (stalled_frames ! 0) \<le> 0"
    by (simp add: stalled_frames_def)
  show ?thesis using nonpositive_dt_default [OF l t] l t by (simp add: stalled_avg)
qed

text \<open>
  C6, as stated, fails: for two frames with the same timestamp and an average
  displacement of 1, the velocity is not the displacement divided by \<open>1/30\<close>.
\<close>

theorem one_thirtieth_counterexample:
  "timestamp (stalled_frames ! Suc 0) - timestamp (stalled_frames ! 0) \<le> 0 \<and>
   calculate_velocities stalled_frames \<noteq>
     [avg_displacement (stalled_frames ! 0) (stalled_frames ! Suc 0) / (1 / 30)]"
proof -
  have "calculate_velocities stalled_frames = [1000 / 33]"
    by (simp add: calculate_velocities_def stalled_frames_def frame_velocity_def frame_dt_def
        avg_displacement_def kp_displacement_def z_or_0_def KeyPoint_xy_def)
  then show ?thesis by (simp add: stalled_avg) (simp add: stalled_frames_def)
qed

section \<open>Peaks\<close>

lemma detect_set:
  "3 \<le> length vs \<Longrightarrow>
   set (detect_movement_peaks vs) =
     (\<lambda>i. real i * 0.033) ` {i. 1 \<le> i \<and> i < length vs - 1 \<and> is_peak vs (np_percentile vs 75) i}"
  by (auto simp: detect_movement_peaks_def detect_movement_peaks_at_def Let_def)

lemma percentile_example: "np_percentile [0, 1, 0] 75 = 1 / 2"
  by (simp add: np_percentile_def Let_def)

lemma detect_example: "detect_movement_peaks [0, 1, 0] = [0.033]"
  by (simp add: detect_movement_peaks_def detect_movement_peaks_at_def percentile_example
      is_peak_def Let_def)

text \<open>
  C7, as amended.  Every timestamp that the peak detector returns is the index of a
  peak sample multiplied by the constant 0.033; the detector sees the velocities only,
  never the timestamps of the frames.
\<close>

theorem peak_times:
  assumes "t \<in> set (detect_movement_peaks vs)"
  shows "\<exists>i. 1 \<le> i \<and> i \<le> length vs - 2 \<and> is_peak vs (np_percentile vs 75) i \<and>
             t = real i * 0.033"
proof -
  have len: "3 \<le> length vs"
    using assms by (auto simp: detect_movement_peaks_def detect_movement_peaks_at_def split: if_splits)
  from assms obtain i where "1 \<le> i" "i < length vs - 1"
      "is_peak vs (np_percentile vs 75) i" "t = real i * 0.033"
    unfolding detect_set [OF len] by auto
  then show ?thesis using len by (intro exI [of _ i]) auto
qed

theorem peak_times_witness:
  "0.033 \<in> set (detect_movement_peaks [0, 1, 0]) \<and>
   (\<exists>i. 1 \<le> i \<and> i \<le> length [0, 1, 0 :: real] - 2 \<and>
        is_peak [0, 1, 0] (np_percentile [0, 1, 0] 75) i \<and> (0.033 :: real) = real i * 0.033)"
proof -
  have m: "0.033 \<in> set (detect_movement_peaks [0, 1, 0])" by (simp add: detect_example)
  show ?thesis using peak_times [OF m] m by simp
qed

text \<open>
  C7, as stated, fails: the velocities \<open>[0, 1, 0]\<close> have their only peak at index 1,
  and its timestamp is 0.033, not \<open>1/30\<close>.
\<close>

theorem peak_time_counterexample:
  "detect_movement_peaks [0, 1, 0] = [real 1 * 0.033] \<and>
   detect_movement_peaks [0, 1, 0] \<noteq> [real 1 * (1 / 30)]"
  by (simp add: detect_example)

text \<open>
  C8.  With fewer than three velocities the detector returns nothing.  Otherwise
  the sample at index \<open>i\<close> is reported (by its timestamp \<open>i * 0.033\<close>) exactly when
  \<open>1 \<le> i \<le> len - 2\<close>, its value exceeds the 75th percentile of the sequence and it
  is strictly greater than both neighbours; so the first and the last index are never
  reported, and neither is a sample equal to a neighbour.
\<close>

theorem peak_characterisation:
  "(length vs < 3 \<longrightarrow> detect_movement_peaks vs = []) \<and>
   (3 \<le> length vs \<longrightarrow>
      (real i * 0.033 \<in> set (detect_movement_peaks vs) \<longleftrightarrow>
         1 \<le> i \<and> i \<le> length vs - 2 \<and>
         vs ! i > np_percentile vs 75 \<and> vs ! i > vs ! (i - 1) \<and> vs ! i > vs ! (i + 1)))"
proof (intro conjI impI)
  assume "length vs < 3"
  then show "detect_movement_peaks vs = []"
    by (simp add: detect_movement_peaks_def detect_movement_peaks_at_def)
next
  assume len: "3 \<le> length vs"
  have inj: "real i * 0.033 = real j * 0.033 \<longleftrightarrow> i = j" for j by simp
  have "real i * 0.033 \<in> set (detect_movement_peaks vs) \<longleftrightarrow>
          1 \<le> i \<and> i < length vs - 1 \<and> is_peak vs (np_percentile vs 75) i"
    unfolding detect_set [OF len] using inj by (auto simp: image_iff)
  also have "\<dots> \<longleftrightarrow> 1 \<le> i \<and> i \<le> length vs - 2 \<and>
         vs ! i > np_percentile vs 75 \<and> vs ! i > vs ! (i - 1) \<and> vs ! i > vs ! (i + 1)"
    using len by (auto simp: is_peak_def)
  finally show "real i * 0.033 \<in> set (detect_movement_peaks vs) \<longleftrightarrow>
         1 \<le> i \<and> i \<le> length vs - 2 \<and>
         vs ! i > np_percentile vs 75 \<and> vs ! i > vs ! (i - 1) \<and> vs ! i > vs ! (i + 1)" .
qed

theorem peak_characterisation_witness:
  "\<not> length [0, 1, 0 :: real] < 3 \<and> 3 \<le> length [0, 1, 0 :: real] \<and>
   real 1 * 0.033 \<in> set (detect_movement_peaks [0, 1, 0]) \<and>
   [0, 1, 0 :: real] ! 1 > np_percentile [0, 1, 0] 75 \<and>
   detect_movement_peaks [5, 7] = []"
  using peak_characterisation [of "[0, 1, 0]" 1] peak_characterisation [of "[5, 7]" 0]
  by (simp add: percentile_example)

end
